theory Spec2Isabelle
  imports Main "HOL-Library.DAList"
begin

section \<open>Data model\<close>

text \<open>
  The feedback bot keeps two collections in \<^verbatim>\<open>ApprovalHandler\<close>
  (\<^verbatim>\<open>src/approval-handler.js\<close>): a JavaScript \<^verbatim>\<open>Map\<close> from message ids to
  feedback objects and a \<^verbatim>\<open>Set\<close> of processed message timestamps. Both keep
  insertion order and hold every key once. The map is an association list with distinct
  keys (\<open>AList.update\<close> overwrites in place and appends a new key at the end, as
  \<^verbatim>\<open>Map.prototype.set\<close> does); the set is a list without repetitions.

  Objects are records whose optional properties are \<open>option\<close>s: \<open>None\<close> stands for
  a property that is \<^verbatim>\<open>undefined\<close>, \<^verbatim>\<open>null\<close> or absent. Timestamps are the
  milliseconds behind the ISO strings that \<^verbatim>\<open>toISOString\<close> writes and
  \<^verbatim>\<open>new Date(...).getTime()\<close> reads back.
\<close>

type_synonym time = int

typedef 'a jsset = "{xs :: 'a list. distinct xs}"
  morphisms members JsSet
  by (rule exI [of _ "[]"]) simp

setup_lifting type_definition_jsset

lift_definition set_empty :: "'a jsset" is "[]"
  by simp

lift_definition set_add :: "'a \<Rightarrow> 'a jsset \<Rightarrow> 'a jsset"
  is "\<lambda>x xs. if x \<in> set xs then xs else xs @ [x]"
  by simp

lift_definition set_has :: "'a jsset \<Rightarrow> 'a \<Rightarrow> bool"
  is "\<lambda>xs x. x \<in> set xs" .

text \<open>\<^verbatim>\<open>new Set(array)\<close> and \<^verbatim>\<open>new Map(entries)\<close> insert the elements in order.\<close>

definition new_Set :: "'a list \<Rightarrow> 'a jsset" where
  "new_Set xs = foldl (\<lambda>s x. set_add x s) set_empty xs"

definition new_Map :: "('k \<times> 'v) list \<Rightarrow> ('k, 'v) alist" where
  "new_Map es = foldl (\<lambda>m (k, v). DAList.update k v m) DAList.empty es"

text \<open>The message handed to the analyzer (\<^verbatim>\<open>interactive-server.js\<close>, lines 537-544).\<close>

record message =
  msg_text :: string
  userId :: "string option"
  channelId :: "string option"
  channelName :: string
  ts :: string
  permalink :: "string option"

text \<open>
  The object the model is asked to reply with (the prompt of \<^verbatim>\<open>analyzeFeedback\<close>);
  \<^verbatim>\<open>type\<close> is \<open>ftype\<close> here.
\<close>

record verdict =
  isFeedback :: "bool option"
  ftype :: "string option"
  title :: "string option"
  description :: "string option"
  priority :: "string option"
  confidence :: "int option"

text \<open>\<^verbatim>\<open>{...feedback, sourceName}\<close>: what \<^verbatim>\<open>analyzeFeedback\<close> returns.\<close>

record analysis = verdict +
  sourceName :: string

text \<open>
  \<^verbatim>\<open>{...result, originalMessage: msg, messageSnippet: ...}\<close>: an item of
  \<^verbatim>\<open>analyzeBatch\<close>. \<open>messageLink\<close> and \<open>dueDate\<close> are the two properties read
  later that the item does not have yet.
\<close>

record feedback = analysis +
  originalMessage :: message
  messageSnippet :: string
  messageLink :: "string option"
  dueDate :: "string option"

datatype status = Pending | Approved | Rejected

text \<open>\<^verbatim>\<open>{...feedback, createdAt: ..., status: 'pending'}\<close>: a stored candidate.\<close>

record candidate = feedback +
  createdAt :: time
  status :: status
  approvedAt :: "time option"
  rejectedAt :: "time option"

text \<open>
  The file \<^verbatim>\<open>data/approvals.json\<close>: absent, not parsable, or a JSON object whose
  three fields may each be missing.
\<close>

record snapshot =
  snap_pendingApprovals :: "(string \<times> candidate) list option"
  snap_processedMessages :: "string list option"
  lastSaved :: "time option"

datatype disk_file = Missing | Unparsable | Json snapshot

record store =
  pendingApprovals :: "(string, candidate) alist"
  processedMessages :: "string jsset"
  dataFile :: disk_file

text \<open>
  What a store operation takes from outside: the clock reading of its \<^verbatim>\<open>new Date()\<close>
  and whether \<^verbatim>\<open>mkdirSync\<close>/\<^verbatim>\<open>writeFileSync\<close> succeed.
\<close>

record sys =
  now :: time
  fs_ok :: bool

section \<open>The approval store (\<^verbatim>\<open>src/approval-handler.js\<close>)\<close>

text \<open>
  \<^verbatim>\<open>saveData\<close> writes the entries of the map, the elements of the set and the time;
  a failing write is caught and logged, the file stays as it was.
\<close>

definition saveData :: "sys \<Rightarrow> store \<Rightarrow> store" where
  "saveData io s =
     (if fs_ok io
      then s\<lparr>dataFile := Json \<lparr>snap_pendingApprovals = Some (DAList.impl_of (pendingApprovals s)),
                                snap_processedMessages = Some (members (processedMessages s)),
                                lastSaved = Some (now io)\<rparr>\<rparr>
      else s)"

text \<open>
  \<^verbatim>\<open>loadData\<close>: nothing happens when the file does not exist or \<^verbatim>\<open>JSON.parse\<close>
  throws (caught); a missing field is read as \<^verbatim>\<open>[]\<close>.
\<close>

definition loadData :: "store \<Rightarrow> store" where
  "loadData s =
     (case dataFile s of
        Json data \<Rightarrow>
          s\<lparr>pendingApprovals :=
              new_Map (case snap_pendingApprovals data of None \<Rightarrow> [] | Some es \<Rightarrow> es),
            processedMessages :=
              new_Set (case snap_processedMessages data of None \<Rightarrow> [] | Some xs \<Rightarrow> xs)\<rparr>
      | _ \<Rightarrow> s)"

text \<open>The constructor: two empty collections, then \<^verbatim>\<open>loadData\<close>.\<close>

definition ApprovalHandler :: "disk_file \<Rightarrow> store" where
  "ApprovalHandler disk =
     loadData \<lparr>pendingApprovals = DAList.empty, processedMessages = set_empty, dataFile = disk\<rparr>"

definition addPendingApproval :: "sys \<Rightarrow> string \<Rightarrow> feedback \<Rightarrow> store \<Rightarrow> store" where
  "addPendingApproval io messageId fb s =
     saveData io
       (s\<lparr>pendingApprovals :=
            DAList.update messageId
              (feedback.extend fb (candidate.fields (now io) Pending None None))
              (pendingApprovals s)\<rparr>)"

definition getPendingApproval :: "store \<Rightarrow> string \<Rightarrow> candidate option" where
  "getPendingApproval s messageId = DAList.lookup (pendingApprovals s) messageId"

definition markAsProcessed :: "sys \<Rightarrow> string \<Rightarrow> store \<Rightarrow> store" where
  "markAsProcessed io messageTs s =
     saveData io (s\<lparr>processedMessages := set_add messageTs (processedMessages s)\<rparr>)"

definition isProcessed :: "store \<Rightarrow> string \<Rightarrow> bool" where
  "isProcessed s messageTs = set_has (processedMessages s) messageTs"

text \<open>
  The \<^verbatim>\<open>updates\<close> of \<^verbatim>\<open>approveFeedback\<close> are spread over the stored object; the
  overrides modelled are those of the task fields. \<^verbatim>\<open>updates = null\<close> is the empty list.
\<close>

datatype override =
    SetTitle string
  | SetDescription string
  | SetPriority string
  | SetType string
  | SetMessageLink string
  | SetDueDate string

fun apply_override :: "candidate \<Rightarrow> override \<Rightarrow> candidate" where
  "apply_override c (SetTitle x) = c\<lparr>title := Some x\<rparr>"
| "apply_override c (SetDescription x) = c\<lparr>description := Some x\<rparr>"
| "apply_override c (SetPriority x) = c\<lparr>priority := Some x\<rparr>"
| "apply_override c (SetType x) = c\<lparr>ftype := Some x\<rparr>"
| "apply_override c (SetMessageLink x) = c\<lparr>messageLink := Some x\<rparr>"
| "apply_override c (SetDueDate x) = c\<lparr>dueDate := Some x\<rparr>"

definition approveFeedback ::
  "sys \<Rightarrow> string \<Rightarrow> override list \<Rightarrow> store \<Rightarrow> candidate option \<times> store" where
  "approveFeedback io messageId updates s =
     (case DAList.lookup (pendingApprovals s) messageId of
        None \<Rightarrow> (None, s)
      | Some approval \<Rightarrow>
          (let approvedFeedback =
                 (foldl apply_override approval updates)
                   \<lparr>status := Approved, approvedAt := Some (now io)\<rparr>
           in (Some approvedFeedback,
               saveData io
                 (s\<lparr>pendingApprovals :=
                      DAList.update messageId approvedFeedback (pendingApprovals s)\<rparr>))))"

definition rejectFeedback :: "sys \<Rightarrow> string \<Rightarrow> store \<Rightarrow> candidate option \<times> store" where
  "rejectFeedback io messageId s =
     (case DAList.lookup (pendingApprovals s) messageId of
        None \<Rightarrow> (None, s)
      | Some approval \<Rightarrow>
          (let rejectedFeedback = approval\<lparr>status := Rejected, rejectedAt := Some (now io)\<rparr>
           in (Some rejectedFeedback,
               saveData io
                 (s\<lparr>pendingApprovals :=
                      DAList.update messageId rejectedFeedback (pendingApprovals s)\<rparr>))))"

definition getApprovedFeedbacks :: "store \<Rightarrow> candidate list" where
  "getApprovedFeedbacks s =
     filter (\<lambda>approval. status approval = Approved)
       (map snd (DAList.impl_of (pendingApprovals s)))"

definition removePendingApproval :: "sys \<Rightarrow> string \<Rightarrow> store \<Rightarrow> store" where
  "removePendingApproval io messageId s =
     saveData io (s\<lparr>pendingApprovals := DAList.delete messageId (pendingApprovals s)\<rparr>)"

text \<open>
  \<^verbatim>\<open>clearOldApprovals\<close> walks the entries and deletes the key of each entry created
  before the cutoff; deleting the entry under the iterator does not disturb the walk,
  so the loop is a fold over the entries the map had. It logs the number of deleted
  entries and saves when that number is not zero. The function has no
  \<^verbatim>\<open>return\<close>: its value is \<^verbatim>\<open>undefined\<close>, \<open>None\<close> here.
\<close>

datatype console = Cleared_old_approvals nat

definition old_entry :: "time \<Rightarrow> string \<times> candidate \<Rightarrow> bool" where
  "old_entry cutoffTime e = (createdAt (snd e) < cutoffTime)"

definition clear_step ::
  "time \<Rightarrow> (string, candidate) alist \<Rightarrow> string \<times> candidate \<Rightarrow> (string, candidate) alist" where
  "clear_step cutoffTime m e = (if old_entry cutoffTime e then DAList.delete (fst e) m else m)"

definition clearOldApprovals :: "sys \<Rightarrow> int \<Rightarrow> store \<Rightarrow> nat option \<times> console list \<times> store" where
  "clearOldApprovals io days s =
     (let cutoffTime = now io - days * 24 * 60 * 60 * 1000;
          beforeSize = size (pendingApprovals s);
          s1 = s\<lparr>pendingApprovals :=
                   foldl (clear_step cutoffTime) (pendingApprovals s)
                     (DAList.impl_of (pendingApprovals s))\<rparr>;
          afterSize = size (pendingApprovals s1)
      in if beforeSize \<noteq> afterSize
         then (None, [Cleared_old_approvals (beforeSize - afterSize)], saveData io s1)
         else (None, [], s1))"

section \<open>The feedback extractor (\<^verbatim>\<open>MessageAnalyzer\<close>)\<close>

text \<open>
  The reply text is trimmed, a fenced code block or else the outermost braces are cut
  out of it, and commas before a closing bracket are dropped, before \<^verbatim>\<open>JSON.parse\<close>.
  White space is the ASCII part of what \<^verbatim>\<open>\s\<close> and \<^verbatim>\<open>trim\<close> accept.
\<close>

definition is_space :: "char \<Rightarrow> bool" where
  "is_space c = (c \<in> set [CHR '' '', CHR 0x09, CHR 0x0A, CHR 0x0B, CHR 0x0C, CHR 0x0D])"

definition trim :: "string \<Rightarrow> string" where
  "trim str = rev (dropWhile is_space (rev (dropWhile is_space str)))"

definition fence :: string where
  "fence = [CHR 0x60, CHR 0x60, CHR 0x60]"

text \<open>The text before the first fence and the text after it.\<close>

fun split_fence :: "string \<Rightarrow> (string \<times> string) option" where
  "split_fence [] = None"
| "split_fence (c # cs) =
     (if take 3 (c # cs) = fence then Some ([], drop 3 (c # cs))
      else (case split_fence cs of None \<Rightarrow> None | Some (a, b) \<Rightarrow> Some (c # a, b)))"

text \<open>
  The group of the code-block pattern: after the first fence, an optional \<^verbatim>\<open>json\<close> and
  white space, the text up to the next fence. Neither \<^verbatim>\<open>json\<close> nor white space holds
  a backtick, so no other way of matching finds a fence that this one misses.
\<close>

definition match_code_block :: "string \<Rightarrow> string option" where
  "match_code_block str =
     (case split_fence str of
        None \<Rightarrow> None
      | Some (before, rest) \<Rightarrow>
          (let rest1 = (if take 4 rest = ''json'' then drop 4 rest else rest);
               rest2 = dropWhile is_space rest1
           in (case split_fence rest2 of None \<Rightarrow> None | Some (body, after) \<Rightarrow> Some body)))"

text \<open>The object pattern: from the first opening brace to the last closing brace after it.\<close>

definition match_object :: "string \<Rightarrow> string option" where
  "match_object str =
     (let from_brace = dropWhile (\<lambda>c. c \<noteq> CHR ''{'') str;
          to_brace = rev (dropWhile (\<lambda>c. c \<noteq> CHR ''}'') (rev from_brace))
      in if to_brace = [] then None else Some to_brace)"

text \<open>A comma, white space and a closing bracket are replaced by the bracket, everywhere.\<close>

function strip_trailing_commas :: "string \<Rightarrow> string" where
  "strip_trailing_commas [] = []"
| "strip_trailing_commas (c # cs) =
     (if c = CHR '',''
      then (case dropWhile is_space cs of
              [] \<Rightarrow> c # strip_trailing_commas cs
            | d # ds \<Rightarrow>
                if d = CHR ''}'' \<or> d = CHR '']'' then d # strip_trailing_commas ds
                else c # strip_trailing_commas cs)
      else c # strip_trailing_commas cs)"
  by pat_completeness auto
termination
proof (relation "measure length")
  fix c :: char and cs d ds
  assume "dropWhile is_space cs = d # ds"
  then have "length (d # ds) \<le> length cs"
    by (metis length_dropWhile_le)
  then show "(ds, c # cs) \<in> measure length" by simp
qed simp_all

definition extract_json :: "string \<Rightarrow> string" where
  "extract_json responseText =
     (let jsonString = trim responseText;
          jsonString1 =
            (case match_code_block jsonString of
               Some group1 \<Rightarrow> trim group1
             | None \<Rightarrow>
                 (case match_object jsonString of
                    Some match0 \<Rightarrow> match0
                  | None \<Rightarrow> jsonString))
      in strip_trailing_commas (trim jsonString1))"

text \<open>
  What \<^verbatim>\<open>JSON.parse\<close> can give: \<^verbatim>\<open>null\<close>, whose properties cannot be read; an
  object, read through the fields of the prompt; or a number, string, boolean or array,
  on which \<^verbatim>\<open>isFeedback\<close> is \<^verbatim>\<open>undefined\<close>. \<^verbatim>\<open>JSON.parse\<close> itself is an
  argument of the model; \<open>None\<close> is its \<^verbatim>\<open>SyntaxError\<close>.
\<close>

datatype parsed = Parsed_null | Parsed_object verdict | Parsed_other

datatype error = ApiFailure | TypeError | SyntaxError

record content_block =
  block_type :: string
  block_text :: string

text \<open>The outcome of \<^verbatim>\<open>client.messages.create\<close>: it throws, or gives the content blocks.\<close>

datatype api_result = Api_error | Api_message "content_block list"

text \<open>The body of the \<^verbatim>\<open>try\<close> in \<^verbatim>\<open>analyzeFeedback\<close>; \<open>Inl\<close> is a thrown error.\<close>

definition analyzeFeedback_try ::
  "(string \<Rightarrow> parsed option) \<Rightarrow> api_result \<Rightarrow> string \<Rightarrow> error + analysis option" where
  "analyzeFeedback_try parse message_obj src =
     (case message_obj of
        Api_error \<Rightarrow> Inl ApiFailure
      | Api_message content \<Rightarrow>
          (case content of
             [] \<Rightarrow> Inl TypeError
           | block # others \<Rightarrow>
               (let responseText = (if block_type block = ''text'' then block_text block else [])
                in (case parse (extract_json responseText) of
                      None \<Rightarrow> Inl SyntaxError
                    | Some Parsed_null \<Rightarrow> Inl TypeError
                    | Some Parsed_other \<Rightarrow> Inr None
                    | Some (Parsed_object fb) \<Rightarrow>
                        if isFeedback fb = Some True \<and>
                           (case confidence fb of None \<Rightarrow> False | Some c \<Rightarrow> c \<ge> 60)
                        then Inr (Some (verdict.extend fb (analysis.fields src)))
                        else Inr None))))"

text \<open>The \<^verbatim>\<open>catch\<close> logs the error and returns \<^verbatim>\<open>null\<close>.\<close>

definition analyzeFeedback ::
  "(string \<Rightarrow> parsed option) \<Rightarrow> api_result \<Rightarrow> string \<Rightarrow> error + analysis option" where
  "analyzeFeedback parse message_obj src =
     (case analyzeFeedback_try parse message_obj src of
        Inl err \<Rightarrow> Inr None
      | Inr result \<Rightarrow> Inr result)"

section \<open>The chat client and the task sink\<close>

record attachment =
  att_text :: "string option"
  att_title :: "string option"
  fallback :: "string option"
  author_name :: "string option"
  from_url :: "string option"

record slack_event =
  ev_text :: "string option"
  ev_user :: "string option"
  ev_channel :: "string option"
  ev_ts :: string
  ev_attachments :: "attachment list option"

record profile =
  profile_real_name :: "string option"
  display_name :: "string option"

record user_info =
  real_name :: "string option"
  profile :: "profile option"
  user_name :: "string option"

text \<open>The payload of \<^verbatim>\<open>notionClient.createTask\<close> (\<^verbatim>\<open>handleApproval\<close>, lines 168-175).\<close>

record task_data =
  task_title :: "string option"
  task_description :: "string option"
  task_priority :: "string option"
  task_type :: "string option"
  task_messageLink :: "string option"
  task_dueDate :: "string option"

text \<open>
  The blocks of the approval message (\<^verbatim>\<open>sendApprovalMessage\<close>): the header, the two
  fields, three sections, and the buttons with their \<^verbatim>\<open>action_id\<close> and \<^verbatim>\<open>value\<close>.
  The pictographs of the header and of the button labels are left out.
\<close>

record prompt =
  header :: string
  source_field :: string
  type_field :: string
  title_section :: string
  summary_section :: string
  priority_section :: string
  buttons :: "(string \<times> string) list"

datatype notice =
    Task_created task_data string string
  | Task_failed
  | Feedback_rejected

text \<open>The calls that leave the process.\<close>

datatype effect =
    Model_call string string
  | Users_info string
  | Get_permalink "string option" string
  | Post_message string prompt
  | Notion_create task_data
  | Slack_update string notice

text \<open>
  What the outside answers during one run of a handler: the clock and the disk (one
  reading serves every store operation of the run), the
  model's reply to a message text, \<^verbatim>\<open>JSON.parse\<close>, the user directory
  (\<open>None\<close> when \<^verbatim>\<open>getUserInfo\<close> caught an error), the permalink (\<open>None\<close> when
  \<^verbatim>\<open>getMessagePermalink\<close> caught an error), the approval channel the client resolved at
  start, the group of the \<^verbatim>\<open>from_url\<close> pattern, and the id of the page that
  \<^verbatim>\<open>createTask\<close> makes (\<open>None\<close> when it throws).
\<close>

record world =
  w_io :: sys
  model_reply :: "string \<Rightarrow> api_result"
  json_parse :: "string \<Rightarrow> parsed option"
  users_info :: "string \<Rightarrow> user_info option"
  get_permalink :: "string option \<Rightarrow> string \<Rightarrow> string option"
  approvalChannelId :: "string option"
  cid_of_url :: "string \<Rightarrow> string option"
  notion_create :: "task_data \<Rightarrow> string option"

text \<open>A string is truthy when it is there and not empty; a template prints a missing one.\<close>

definition truthy :: "string option \<Rightarrow> bool" where
  "truthy x = (case x of None \<Rightarrow> False | Some str \<Rightarrow> str \<noteq> [])"

definition nonblank :: "string option \<Rightarrow> bool" where
  "nonblank x = (case x of None \<Rightarrow> False | Some str \<Rightarrow> str \<noteq> [] \<and> trim str \<noteq> [])"

definition or_null :: "string option \<Rightarrow> string option" where
  "or_null x = (if truthy x then x else None)"

definition in_template :: "string option \<Rightarrow> string" where
  "in_template x = (case x of None \<Rightarrow> ''undefined'' | Some str \<Rightarrow> str)"

definition approval_blocks :: "feedback \<Rightarrow> string \<Rightarrow> prompt" where
  "approval_blocks fb messageId =
     \<lparr>header = ''New Customer Feedback Detected'',
      source_field = ''*Source:*'' @ [CHR 0x0A] @ sourceName fb,
      type_field = ''*Type:*'' @ [CHR 0x0A] @ in_template (ftype fb),
      title_section = ''*Suggested Title:*'' @ [CHR 0x0A] @ in_template (title fb),
      summary_section = ''*Summary:*'' @ [CHR 0x0A] @ in_template (description fb),
      priority_section = ''*Priority:* '' @ in_template (priority fb) @ [CHR 0x0A]
         @ ''*Original Message:* '' @ messageSnippet fb,
      buttons = [(''review_'' @ messageId, messageId),
                 (''approve_'' @ messageId, messageId),
                 (''reject_'' @ messageId, messageId)]\<rparr>"

text \<open>
  \<^verbatim>\<open>sendApprovalMessage\<close>: nothing is sent when no approval channel is set; what
  \<^verbatim>\<open>chat.postMessage\<close> answers only decides a console line.
\<close>

definition sendApprovalMessage :: "world \<Rightarrow> feedback \<Rightarrow> string \<Rightarrow> effect list" where
  "sendApprovalMessage w fb messageId =
     (case approvalChannelId w of
        None \<Rightarrow> []
      | Some channel \<Rightarrow>
          if channel = [] then [] else [Post_message channel (approval_blocks fb messageId)])"

section \<open>Batch analysis\<close>

text \<open>\<^verbatim>\<open>analyzeBatch\<close>: every message is sent to the model; positive results are collected.\<close>

definition batch_item :: "analysis \<Rightarrow> message \<Rightarrow> feedback" where
  "batch_item result msg =
     analysis.extend result
       (feedback.fields msg
          (take 100 (msg_text msg) @ (if length (msg_text msg) > 100 then ''...'' else []))
          None None)"

fun analyzeBatch :: "world \<Rightarrow> message list \<Rightarrow> error + feedback list" where
  "analyzeBatch w [] = Inr []"
| "analyzeBatch w (msg # msgs) =
     (case analyzeFeedback (json_parse w) (model_reply w (msg_text msg)) (''#'' @ channelName msg) of
        Inl err \<Rightarrow> Inl err
      | Inr result \<Rightarrow>
          (case analyzeBatch w msgs of
             Inl err \<Rightarrow> Inl err
           | Inr rest \<Rightarrow>
               Inr ((case result of None \<Rightarrow> [] | Some r \<Rightarrow> [batch_item r msg]) @ rest)))"

section \<open>The ingestion path (\<^verbatim>\<open>processFeedbackMessage\<close>)\<close>

text \<open>Lines 514-528: the text of the event and of its attachments, one line each.\<close>

definition attachment_line :: "attachment \<Rightarrow> string option" where
  "attachment_line a =
     (if truthy (att_text a) then att_text a
      else if truthy (att_title a) then att_title a
      else if truthy (fallback a) then fallback a
      else None)"

fun append_attachments :: "string \<Rightarrow> attachment list \<Rightarrow> string" where
  "append_attachments messageText [] = messageText"
| "append_attachments messageText (a # as) =
     append_attachments
       (case attachment_line a of
          None \<Rightarrow> messageText
        | Some line \<Rightarrow> messageText @ [CHR 0x0A] @ line) as"

definition message_text :: "slack_event \<Rightarrow> string" where
  "message_text event =
     (let messageText = (case ev_text event of None \<Rightarrow> [] | Some t \<Rightarrow> t)
      in (case ev_attachments event of
            None \<Rightarrow> messageText
          | Some as \<Rightarrow> append_attachments messageText as))"

text \<open>Lines 555-610: the name of the reporter.\<close>

definition name_of_user :: "user_info \<Rightarrow> string" where
  "name_of_user userInfo =
     (if nonblank (real_name userInfo) then in_template (real_name userInfo)
      else (case profile userInfo of
              None \<Rightarrow>
                if nonblank (user_name userInfo) then in_template (user_name userInfo)
                else ''Unknown''
            | Some p \<Rightarrow>
                if nonblank (profile_real_name p) then in_template (profile_real_name p)
                else if nonblank (display_name p) then in_template (display_name p)
                else if nonblank (user_name userInfo) then in_template (user_name userInfo)
                else ''Unknown''))"

fun forwarded_reporter :: "(string \<Rightarrow> string option) \<Rightarrow> string \<Rightarrow> attachment list \<Rightarrow> string" where
  "forwarded_reporter cid reporterName [] = reporterName"
| "forwarded_reporter cid reporterName (a # as) =
     (if truthy (author_name a) then in_template (author_name a)
      else if truthy (from_url a)
      then (case cid (in_template (from_url a)) of
              None \<Rightarrow> forwarded_reporter cid reporterName as
            | Some m \<Rightarrow> forwarded_reporter cid m as)
      else forwarded_reporter cid reporterName as)"

definition reporter_name :: "world \<Rightarrow> slack_event \<Rightarrow> effect list \<times> string" where
  "reporter_name w event =
     (let (calls, direct) =
            (if truthy (ev_user event)
             then ([Users_info (in_template (ev_user event))],
                   (case users_info w (in_template (ev_user event)) of
                      None \<Rightarrow> ''Unknown''
                    | Some userInfo \<Rightarrow> name_of_user userInfo))
             else ([], ''Unknown''))
      in (calls,
          (case ev_attachments event of
             None \<Rightarrow> direct
           | Some as \<Rightarrow>
               if direct = ''Unknown'' then forwarded_reporter (cid_of_url w) direct as
               else direct)))"

text \<open>\<^verbatim>\<open>messageTs.replace('.', '_')\<close> replaces the first dot.\<close>

fun replace_first :: "char \<Rightarrow> char \<Rightarrow> string \<Rightarrow> string" where
  "replace_first a b [] = []"
| "replace_first a b (c # cs) = (if c = a then b # cs else c # replace_first a b cs)"

definition message_id :: "string \<Rightarrow> string" where
  "message_id messageTs = ''msg_'' @ replace_first (CHR ''.'') (CHR ''_'') messageTs"

text \<open>Line 616: the reporter is put in front of the description.\<close>

definition with_reporter :: "string \<Rightarrow> feedback \<Rightarrow> feedback" where
  "with_reporter reporterName item =
     item\<lparr>description :=
            Some (''Task requested by '' @ reporterName @ [CHR 0x0A, CHR 0x0A]
                  @ in_template (description item))\<rparr>"

text \<open>
  Lines 612-635, once per item: the description gets the reporter, the item is stored,
  the permalink is asked for and put on the local item, and the prompt is sent.
\<close>

fun register_items ::
  "world \<Rightarrow> string \<Rightarrow> message \<Rightarrow> string \<Rightarrow> feedback list \<Rightarrow> store \<Rightarrow> effect list \<times> store" where
  "register_items w reporterName message messageTs [] s = ([], s)"
| "register_items w reporterName message messageTs (item # items) s =
     (let messageId = message_id messageTs;
          item1 = with_reporter reporterName item;
          s1 = addPendingApproval (w_io w) messageId item1 s;
          link = get_permalink w (channelId message) (ts message);
          item2 = (if truthy link then item1\<lparr>messageLink := link\<rparr> else item1);
          sent = sendApprovalMessage w item2 messageId;
          (later, s2) = register_items w reporterName message messageTs items s1
      in (Get_permalink (channelId message) (ts message) # sent @ later, s2))"

text \<open>Lines 537-544: the message given to the analyzer.\<close>

definition to_message :: "slack_event \<Rightarrow> string \<Rightarrow> message" where
  "to_message event messageText =
     \<lparr>msg_text = trim messageText, userId = ev_user event, channelId = ev_channel event,
      channelName = ''feedback'', ts = ev_ts event, permalink = None\<rparr>"

text \<open>
  The result is the error the function rethrows, if any, the calls it made, and the
  store it leaves.
\<close>

definition processFeedbackMessage ::
  "world \<Rightarrow> slack_event \<Rightarrow> store \<Rightarrow> error option \<times> effect list \<times> store" where
  "processFeedbackMessage w event s =
     (let messageTs = ev_ts event in
      if isProcessed s messageTs then (None, [], s)
      else
        (let messageText = message_text event in
         if messageText = [] \<or> trim messageText = [] then (None, [], s)
         else
           (let message = to_message event messageText;
                analysed = [Model_call (msg_text message) (''#'' @ channelName message)]
            in (case analyzeBatch w [message] of
                  Inl err \<Rightarrow> (Some err, analysed, s)
                | Inr feedbackArray \<Rightarrow>
                    if length feedbackArray > 0
                    then
                      (let (looked_up, reporterName) = reporter_name w event;
                           (registered, s1) =
                             register_items w reporterName message messageTs feedbackArray s
                       in (None, analysed @ looked_up @ registered,
                           markAsProcessed (w_io w) messageTs s1))
                    else (None, analysed, markAsProcessed (w_io w) messageTs s)))))"

section \<open>The resolution path (\<^verbatim>\<open>handleApproval\<close>, \<^verbatim>\<open>handleRejection\<close>)\<close>

definition failure_notice :: "string option \<Rightarrow> effect list" where
  "failure_notice responseUrl =
     (if truthy responseUrl then [Slack_update (in_template responseUrl) Task_failed] else [])"

text \<open>
  \<^verbatim>\<open>handleApproval\<close>. Reading a property of a \<^verbatim>\<open>null\<close> result of
  \<^verbatim>\<open>approveFeedback\<close> and a throwing \<^verbatim>\<open>createTask\<close> both end in the \<^verbatim>\<open>catch\<close>.
\<close>

definition handleApproval ::
  "world \<Rightarrow> string \<Rightarrow> string option \<Rightarrow> store \<Rightarrow> effect list \<times> store" where
  "handleApproval w messageId responseUrl s =
     (case getPendingApproval s messageId of
        None \<Rightarrow> ([], s)
      | Some approval \<Rightarrow>
          (case approveFeedback (w_io w) messageId [] s of
             (None, s1) \<Rightarrow> (failure_notice responseUrl, s1)
           | (Some approvedFeedback, s1) \<Rightarrow>
               (let taskData =
                      \<lparr>task_title = title approvedFeedback,
                       task_description = description approvedFeedback,
                       task_priority = priority approvedFeedback,
                       task_type = ftype approvedFeedback,
                       task_messageLink = or_null (messageLink approvedFeedback),
                       task_dueDate = or_null (dueDate approvedFeedback)\<rparr>
                in (case notion_create w taskData of
                      None \<Rightarrow> (Notion_create taskData # failure_notice responseUrl, s1)
                    | Some page_id \<Rightarrow>
                        (Notion_create taskData #
                           (if truthy responseUrl
                            then [Slack_update (in_template responseUrl)
                                    (Task_created taskData
                                       (''https://notion.so/'' @ filter (\<lambda>c. c \<noteq> CHR ''-'') page_id)
                                       page_id)]
                            else []),
                         removePendingApproval (w_io w) messageId s1)))))"

definition handleRejection ::
  "world \<Rightarrow> string \<Rightarrow> string option \<Rightarrow> store \<Rightarrow> effect list \<times> store" where
  "handleRejection w messageId responseUrl s =
     (case getPendingApproval s messageId of
        None \<Rightarrow> ([], s)
      | Some approval \<Rightarrow>
          (case rejectFeedback (w_io w) messageId s of
             (rejected, s1) \<Rightarrow>
               (if truthy responseUrl
                then [Slack_update (in_template responseUrl) Feedback_rejected]
                else [],
                s1)))"

section \<open>Reading the calls a handler made\<close>

abbreviation thrown :: "error option \<times> effect list \<times> store \<Rightarrow> error option" where
  "thrown r \<equiv> fst r"

abbreviation calls :: "error option \<times> effect list \<times> store \<Rightarrow> effect list" where
  "calls r \<equiv> fst (snd r)"

abbreviation store_after :: "error option \<times> effect list \<times> store \<Rightarrow> store" where
  "store_after r \<equiv> snd (snd r)"

definition task_calls :: "effect list \<Rightarrow> task_data list" where
  "task_calls effs = concat (map (\<lambda>e. case e of Notion_create td \<Rightarrow> [td] | _ \<Rightarrow> []) effs)"

definition prompts_posted :: "effect list \<Rightarrow> prompt list" where
  "prompts_posted effs = concat (map (\<lambda>e. case e of Post_message ch p \<Rightarrow> [p] | _ \<Rightarrow> []) effs)"

definition notices :: "effect list \<Rightarrow> (string \<times> notice) list" where
  "notices effs = concat (map (\<lambda>e. case e of Slack_update url n \<Rightarrow> [(url, n)] | _ \<Rightarrow> []) effs)"



section \<open>Sample inputs\<close>

text \<open>
  The scenario of the specification: the message \<^verbatim>\<open>111.222\<close>, a model that answers with
  a fenced JSON object carrying a trailing comma, and a workspace in which every call
  succeeds.
\<close>

definition sample_json :: string where
  \<open>sample_json = ''{"isFeedback": true, "type": "bug", "title": "Mobile search broken", "description": "Search fails", "priority": "High Priority", "confidence": 85}''\<close>

definition sample_reply :: string where
  \<open>sample_reply =
     fence @ ''json'' @ [CHR 0x0A]
       @ ''{"isFeedback": true, "type": "bug", "title": "Mobile search broken", "description": "Search fails", "priority": "High Priority", "confidence": 85,}''
       @ [CHR 0x0A] @ fence\<close>

definition sample_verdict :: verdict where
  "sample_verdict =
     \<lparr>isFeedback = Some True, ftype = Some ''bug'', title = Some ''Mobile search broken'',
      description = Some ''Search fails'', priority = Some ''High Priority'',
      confidence = Some 85\<rparr>"

definition sample_parse :: "string \<Rightarrow> parsed option" where
  "sample_parse str = (if str = sample_json then Some (Parsed_object sample_verdict) else None)"

definition sample_world :: world where
  "sample_world =
     \<lparr>w_io = \<lparr>now = 1000, fs_ok = True\<rparr>,
      model_reply = (\<lambda>txt. Api_message [\<lparr>block_type = ''text'', block_text = sample_reply\<rparr>]),
      json_parse = sample_parse,
      users_info = (\<lambda>u. Some \<lparr>real_name = Some ''Ada'', profile = None, user_name = Some ''ada''\<rparr>),
      get_permalink = (\<lambda>channel t. Some ''https://chat.example/p111222''),
      approvalChannelId = Some ''C9'',
      cid_of_url = (\<lambda>url. None),
      notion_create = (\<lambda>td. Some ''page-1'')\<rparr>"

definition sample_event :: slack_event where
  "sample_event =
     \<lparr>ev_text = Some ''the search feature is broken on mobile'', ev_user = Some ''U1'',
      ev_channel = Some ''C1'', ev_ts = ''111.222'', ev_attachments = None\<rparr>"

text \<open>The store after the sample message went through ingestion on a fresh handler.\<close>

definition sample_store :: store where
  "sample_store = store_after (processFeedbackMessage sample_world sample_event (ApprovalHandler Missing))"

text \<open>
  The same workspace with a model API that throws, and with a task sink that throws; a
  message of blanks; and the sample store after its candidate was rejected.
\<close>

definition failing_model_world :: world where
  "failing_model_world = sample_world\<lparr>model_reply := (\<lambda>txt. Api_error)\<rparr>"

definition failing_sink_world :: world where
  "failing_sink_world = sample_world\<lparr>notion_create := (\<lambda>td. None)\<rparr>"


definition rejected_store :: store where
  "rejected_store = snd (handleRejection sample_world ''msg_111_222'' None sample_store)"

section \<open>Facts about the collections\<close>






lemma impl_of_clear_step:
  "DAList.impl_of (clear_step c m e) =
     (if old_entry c e then filter (\<lambda>x. fst x \<noteq> fst e) (DAList.impl_of m) else DAList.impl_of m)"
  by (auto simp: clear_step_def delete.rep_eq AList.delete_eq intro: filter_cong)

lemma impl_of_foldl_clear_step:
  "DAList.impl_of (foldl (clear_step c) m xs) =
     filter (\<lambda>x. fst x \<notin> fst ` {e \<in> set xs. old_entry c e}) (DAList.impl_of m)"
proof (induction xs arbitrary: m)
  case Nil
  then show ?case by simp
next
  case (Cons e xs)
  show ?case
    by (simp add: Cons.IH impl_of_clear_step) (auto intro!: filter_cong)
qed

text \<open>Keys are distinct, so the loop of \<open>clearOldApprovals\<close> is a filter on the entries.\<close>

lemma clear_loop_filter:
  "DAList.impl_of (foldl (clear_step c) m (DAList.impl_of m)) =
     filter (\<lambda>e. \<not> old_entry c e) (DAList.impl_of m)"
proof -
  have d: "distinct (map fst (DAList.impl_of m))" by simp
  have "\<And>x. x \<in> set (DAList.impl_of m) \<Longrightarrow>
          (fst x \<notin> fst ` {e \<in> set (DAList.impl_of m). old_entry c e}) = (\<not> old_entry c x)"
  proof -
    fix x assume x: "x \<in> set (DAList.impl_of m)"
    have "\<And>e. e \<in> set (DAList.impl_of m) \<Longrightarrow> fst e = fst x \<Longrightarrow> e = x"
      using d x by (metis eq_key_imp_eq_value prod.collapse)
    then show "(fst x \<notin> fst ` {e \<in> set (DAList.impl_of m). old_entry c e}) = (\<not> old_entry c x)"
      using x by auto
  qed
  then show ?thesis
    unfolding impl_of_foldl_clear_step by (intro filter_cong) auto
qed

section \<open>Facts about the store operations\<close>

lemma processed_saveData [simp]: "processedMessages (saveData sy s) = processedMessages s"
  by (simp add: saveData_def)

lemma pending_saveData [simp]: "pendingApprovals (saveData sy s) = pendingApprovals s"
  by (simp add: saveData_def)

lemma isProcessed_markAsProcessed: "isProcessed (markAsProcessed sy t s) t"
  by (simp add: isProcessed_def markAsProcessed_def set_has.rep_eq set_add.rep_eq)

lemma pending_markAsProcessed [simp]:
  "pendingApprovals (markAsProcessed sy t s) = pendingApprovals s"
  by (simp add: markAsProcessed_def)

lemma processed_addPendingApproval [simp]:
  "processedMessages (addPendingApproval sy k fb s) = processedMessages s"
  by (simp add: addPendingApproval_def)

lemma keys_update_present:
  "DAList.lookup m k = Some c \<Longrightarrow>
   map fst (DAList.impl_of (DAList.update k c' m)) = map fst (DAList.impl_of m)"
  by (auto simp: update.rep_eq lookup.rep_eq update_keys dest: map_of_SomeD intro: rev_image_eqI)

section \<open>Facts about the extractor and the ingestion path\<close>

lemma analyzeFeedback_returns: "\<exists>r. analyzeFeedback parse reply src = Inr r"
  by (simp add: analyzeFeedback_def split: sum.split)


lemma analyzeBatch_one:
  "analyzeBatch w [msg] =
     Inr (case analyzeFeedback (json_parse w) (model_reply w (msg_text msg)) (''#'' @ channelName msg) of
            Inr (Some r) \<Rightarrow> [batch_item r msg] | _ \<Rightarrow> [])"
  using analyzeFeedback_returns [of "json_parse w" "model_reply w (msg_text msg)" "''#'' @ channelName msg"]
  by (auto split: option.splits)

lemma register_items_one:
  "register_items w name message t [item] s =
     (let item1 = with_reporter name item;
          link = get_permalink w (channelId message) (ts message)
      in (Get_permalink (channelId message) (ts message)
            # sendApprovalMessage w (if truthy link then item1\<lparr>messageLink := link\<rparr> else item1)
                (message_id t),
          addPendingApproval (w_io w) (message_id t) item1 s))"
  by (simp add: Let_def)

lemma prompts_reporter_name [simp]: "prompts_posted (fst (reporter_name w event)) = []"
  by (simp add: reporter_name_def prompts_posted_def split: prod.splits if_splits)

lemma prompts_sendApprovalMessage: "length (prompts_posted (sendApprovalMessage w fb k)) \<le> 1"
  by (simp add: sendApprovalMessage_def prompts_posted_def split: option.splits)

lemma prompts_append [simp]: "prompts_posted (xs @ ys) = prompts_posted xs @ prompts_posted ys"
  by (simp add: prompts_posted_def)

lemma prompts_Cons_simps [simp]:
  "prompts_posted (Model_call a b # xs) = prompts_posted xs"
  "prompts_posted (Users_info u # xs) = prompts_posted xs"
  "prompts_posted (Get_permalink c t # xs) = prompts_posted xs"
  "prompts_posted (Post_message ch p # xs) = p # prompts_posted xs"
  "prompts_posted [] = []"
  by (simp_all add: prompts_posted_def)


text \<open>
  The three ways a run of the ingestion path can go: it returns at one of its two
  guards, the extractor says no, or the extractor says yes.
\<close>

lemma process_skip:
  "isProcessed s (ev_ts event) \<or> trim (message_text event) = [] \<Longrightarrow>
   processFeedbackMessage w event s = (None, [], s)"
  by (auto simp: processFeedbackMessage_def Let_def trim_def)

lemma process_negative:
  assumes "\<not> isProcessed s (ev_ts event)" and "trim (message_text event) \<noteq> []"
    and "analyzeFeedback (json_parse w) (model_reply w (trim (message_text event))) ''#feedback''
           = Inr None"
  shows "processFeedbackMessage w event s =
     (None, [Model_call (trim (message_text event)) ''#feedback''],
      markAsProcessed (w_io w) (ev_ts event) s)"
proof -
  have "message_text event \<noteq> []" using assms(2) by (auto simp: trim_def)
  then show ?thesis
    using assms by (simp add: processFeedbackMessage_def Let_def analyzeBatch_one to_message_def)
qed

lemma process_positive:
  assumes "\<not> isProcessed s (ev_ts event)" and "trim (message_text event) \<noteq> []"
    and "analyzeFeedback (json_parse w) (model_reply w (trim (message_text event))) ''#feedback''
           = Inr (Some r)"
  shows "processFeedbackMessage w event s =
     (None,
      Model_call (trim (message_text event)) ''#feedback'' # fst (reporter_name w event)
        @ fst (register_items w (snd (reporter_name w event))
                 (to_message event (message_text event)) (ev_ts event)
                 [batch_item r (to_message event (message_text event))] s),
      markAsProcessed (w_io w) (ev_ts event)
        (snd (register_items w (snd (reporter_name w event))
                 (to_message event (message_text event)) (ev_ts event)
                 [batch_item r (to_message event (message_text event))] s)))"
proof -
  have "message_text event \<noteq> []" using assms(2) by (auto simp: trim_def)
  moreover have "msg_text (to_message event (message_text event)) = trim (message_text event)"
    "channelName (to_message event (message_text event)) = ''feedback''"
    by (simp_all add: to_message_def)
  ultimately show ?thesis
    using assms
    by (simp add: processFeedbackMessage_def Let_def analyzeBatch_one split: prod.splits
          del: register_items.simps)
qed

text \<open>No run throws, no run posts two prompts, and a run that passes the guards marks the message.\<close>

lemma run_summary:
  "thrown (processFeedbackMessage w event s) = None \<and>
   length (prompts_posted (calls (processFeedbackMessage w event s))) \<le> 1 \<and>
   (\<not> isProcessed s (ev_ts event) \<and> trim (message_text event) \<noteq> [] \<longrightarrow>
      isProcessed (store_after (processFeedbackMessage w event s)) (ev_ts event))"
proof (cases "isProcessed s (ev_ts event) \<or> trim (message_text event) = []")
  case True
  then have "processFeedbackMessage w event s = (None, [], s)"
    by (rule process_skip)
  then show ?thesis using True by auto
next
  case False
  then have guards: "\<not> isProcessed s (ev_ts event)" "trim (message_text event) \<noteq> []"
    by simp_all
  obtain r where r: "analyzeFeedback (json_parse w) (model_reply w (trim (message_text event)))
      ''#feedback'' = Inr r"
    using analyzeFeedback_returns by blast
  show ?thesis
  proof (cases r)
    case None
    show ?thesis
      using process_negative [OF guards r [unfolded None]]
      by (simp add: isProcessed_markAsProcessed)
  next
    case (Some a)
    show ?thesis
      using process_positive [OF guards r [unfolded Some]] prompts_sendApprovalMessage
      by (simp add: isProcessed_markAsProcessed register_items_one Let_def
            del: register_items.simps)
  qed
qed

section \<open>Facts about the resolution path\<close>

lemma task_calls_simps [simp]:
  "task_calls [] = []"
  "task_calls (Notion_create td # xs) = td # task_calls xs"
  "task_calls (Slack_update u n # xs) = task_calls xs"
  "task_calls (xs @ ys) = task_calls xs @ task_calls ys"
  by (simp_all add: task_calls_def)

lemma notices_simps [simp]:
  "notices [] = []"
  "notices (Notion_create td # xs) = notices xs"
  "notices (Slack_update u n # xs) = (u, n) # notices xs"
  by (simp_all add: notices_def)

lemma handleApproval_found:
  assumes "getPendingApproval s k = Some c"
  shows "handleApproval w k url s =
    (let approved = c\<lparr>status := Approved, approvedAt := Some (now (w_io w))\<rparr>;
         s1 = saveData (w_io w) (s\<lparr>pendingApprovals := DAList.update k approved (pendingApprovals s)\<rparr>);
         taskData = \<lparr>task_title = title c, task_description = description c,
                     task_priority = priority c, task_type = ftype c,
                     task_messageLink = or_null (messageLink c),
                     task_dueDate = or_null (dueDate c)\<rparr>
     in (case notion_create w taskData of
           None \<Rightarrow> (Notion_create taskData # failure_notice url, s1)
         | Some page_id \<Rightarrow>
             (Notion_create taskData #
                (if truthy url
                 then [Slack_update (in_template url)
                         (Task_created taskData
                            (''https://notion.so/'' @ filter (\<lambda>c. c \<noteq> CHR ''-'') page_id) page_id)]
                 else []),
              removePendingApproval (w_io w) k s1)))"
  using assms
  by (simp add: handleApproval_def approveFeedback_def getPendingApproval_def Let_def)

lemma handleRejection_found:
  assumes "getPendingApproval s k = Some c"
  shows "handleRejection w k url s =
    (if truthy url then [Slack_update (in_template url) Feedback_rejected] else [],
     saveData (w_io w)
       (s\<lparr>pendingApprovals :=
            DAList.update k (c\<lparr>status := Rejected, rejectedAt := Some (now (w_io w))\<rparr>)
              (pendingApprovals s)\<rparr>))"
  using assms
  by (simp add: handleRejection_def rejectFeedback_def getPendingApproval_def Let_def)

lemma handle_not_found:
  "getPendingApproval s k = None \<Longrightarrow>
   handleApproval w k url s = ([], s) \<and> handleRejection w k url s = ([], s)"
  by (simp add: handleApproval_def handleRejection_def)

section \<open>Claims about the approval store\<close>

text \<open>
  Claim C5. For a key that is not in the candidate map, \<open>approveFeedback\<close> and
  \<open>rejectFeedback\<close> both return \<^verbatim>\<open>null\<close> (\<open>None\<close>) and hand back the store as it
  was: the same candidate map, the same processed set and the same file on disk, so
  nothing was persisted.
\<close>

theorem approve_reject_unknown_key:
  "DAList.lookup (pendingApprovals s) k = None \<Longrightarrow>
   approveFeedback io k updates s = (None, s) \<and> rejectFeedback io k s = (None, s)"
  by (simp add: approveFeedback_def rejectFeedback_def)

text \<open>Claim C5, witness: a key that the sample store does not hold.\<close>

theorem approve_reject_unknown_key_witness:
  "DAList.lookup (pendingApprovals sample_store) ''msg_999_000'' = None \<and>
   approveFeedback \<lparr>now = 5, fs_ok = True\<rparr> ''msg_999_000'' [SetTitle ''x''] sample_store
     = (None, sample_store) \<and>
   rejectFeedback \<lparr>now = 5, fs_ok = True\<rparr> ''msg_999_000'' sample_store = (None, sample_store)"
proof -
  have h: "DAList.lookup (pendingApprovals sample_store) ''msg_999_000'' = None"
    by code_simp
  show ?thesis
    using h approve_reject_unknown_key [OF h, of "\<lparr>now = 5, fs_ok = True\<rparr>" "[SetTitle ''x'']"]
    by simp
qed

text \<open>
  Claim C6, as stated, fails in its last part: \<open>clearOldApprovals\<close> returns nothing.
  On the sample store, whose one candidate was created at time 0, a sweep for 7 days run
  on day 8 removes one candidate and its value is \<^verbatim>\<open>undefined\<close>, not the count 1.
\<close>

theorem clearOldApprovals_returns_no_count:
  "size (pendingApprovals sample_store) -
     size (pendingApprovals
             (snd (snd (clearOldApprovals \<lparr>now = 8 * 86400000, fs_ok = True\<rparr> 7 sample_store)))) = 1 \<and>
   fst (clearOldApprovals \<lparr>now = 8 * 86400000, fs_ok = True\<rparr> 7 sample_store) \<noteq> Some 1"
  by code_simp

text \<open>
  Claim C6, amended. For every store and every \<open>days\<close>, \<open>clearOldApprovals\<close> keeps, in
  their order, exactly the candidates that were not created before
  \<open>now - days * 24 * 60 * 60 * 1000\<close> and deletes the others, whatever their status; the
  processed set is untouched; the number of deleted candidates is written to the console
  when it is not zero; and the function returns no value.
\<close>

theorem clearOldApprovals_effect:
  "fst (clearOldApprovals io days s) = None \<and>
   DAList.impl_of (pendingApprovals (snd (snd (clearOldApprovals io days s)))) =
     filter (\<lambda>e. \<not> createdAt (snd e) < now io - days * 24 * 60 * 60 * 1000)
       (DAList.impl_of (pendingApprovals s)) \<and>
   processedMessages (snd (snd (clearOldApprovals io days s))) = processedMessages s \<and>
   fst (snd (clearOldApprovals io days s)) =
     (if filter (\<lambda>e. createdAt (snd e) < now io - days * 24 * 60 * 60 * 1000)
           (DAList.impl_of (pendingApprovals s)) = []
      then []
      else [Cleared_old_approvals
              (length (filter (\<lambda>e. createdAt (snd e) < now io - days * 24 * 60 * 60 * 1000)
                 (DAList.impl_of (pendingApprovals s))))])"
proof -
  define c where "c = now io - days * 24 * 60 * 60 * 1000"
  define es where "es = DAList.impl_of (pendingApprovals s)"
  define m' where "m' = foldl (clear_step c) (pendingApprovals s) es"
  have loop: "DAList.impl_of m' = filter (\<lambda>e. \<not> createdAt (snd e) < c) es"
    using clear_loop_filter [of c "pendingApprovals s"] by (simp add: old_entry_def m'_def es_def)
  have len: "length es = length (filter (\<lambda>e. createdAt (snd e) < c) es)
      + length (filter (\<lambda>e. \<not> createdAt (snd e) < c) es)"
    by (rule sum_length_filter_compl [symmetric])
  have run: "clearOldApprovals io days s =
      (if length es \<noteq> length (DAList.impl_of m')
       then (None, [Cleared_old_approvals (length es - length (DAList.impl_of m'))],
             saveData io (s\<lparr>pendingApprovals := m'\<rparr>))
       else (None, [], s\<lparr>pendingApprovals := m'\<rparr>))"
    unfolding clearOldApprovals_def Let_def c_def [symmetric] es_def [symmetric] m'_def [symmetric]
    by (simp add: size_alist_def es_def)
  have none: "filter (\<lambda>e. createdAt (snd e) < c) es = [] \<longleftrightarrow>
      length es = length (DAList.impl_of m')"
    using len by (simp add: loop)
  show ?thesis
    unfolding c_def [symmetric] es_def [symmetric]
    using len none by (simp add: run loop saveData_def)
qed

text \<open>
  Claim C6, witness of the amended statement: the sample candidate is swept on day 8 and
  kept on day 6.
\<close>

theorem clearOldApprovals_effect_witness:
  "fst (clearOldApprovals \<lparr>now = 8 * 86400000, fs_ok = True\<rparr> 7 sample_store) = None \<and>
   DAList.impl_of (pendingApprovals
     (snd (snd (clearOldApprovals \<lparr>now = 8 * 86400000, fs_ok = True\<rparr> 7 sample_store)))) = [] \<and>
   fst (snd (clearOldApprovals \<lparr>now = 8 * 86400000, fs_ok = True\<rparr> 7 sample_store))
     = [Cleared_old_approvals 1] \<and>
   DAList.impl_of (pendingApprovals
     (snd (snd (clearOldApprovals \<lparr>now = 6 * 86400000, fs_ok = True\<rparr> 7 sample_store))))
     = DAList.impl_of (pendingApprovals sample_store)"
proof -
  have e: "filter (\<lambda>e. \<not> createdAt (snd e) < now \<lparr>now = 8 * 86400000, fs_ok = True\<rparr> - 7 * 24 * 60 * 60 * 1000)
             (DAList.impl_of (pendingApprovals sample_store)) = []"
    "filter (\<lambda>e. createdAt (snd e) < now \<lparr>now = 8 * 86400000, fs_ok = True\<rparr> - 7 * 24 * 60 * 60 * 1000)
             (DAList.impl_of (pendingApprovals sample_store)) \<noteq> []"
    "length (filter (\<lambda>e. createdAt (snd e) < now \<lparr>now = 8 * 86400000, fs_ok = True\<rparr> - 7 * 24 * 60 * 60 * 1000)
             (DAList.impl_of (pendingApprovals sample_store))) = 1"
    "filter (\<lambda>e. \<not> createdAt (snd e) < now \<lparr>now = 6 * 86400000, fs_ok = True\<rparr> - 7 * 24 * 60 * 60 * 1000)
             (DAList.impl_of (pendingApprovals sample_store))
       = DAList.impl_of (pendingApprovals sample_store)"
    by code_simp+
  show ?thesis
    using e clearOldApprovals_effect [of "\<lparr>now = 8 * 86400000, fs_ok = True\<rparr>" 7 sample_store]
      clearOldApprovals_effect [of "\<lparr>now = 6 * 86400000, fs_ok = True\<rparr>" 7 sample_store]
    by simp
qed



section \<open>Claims about the extractor\<close>



section \<open>Claims about the ingestion path\<close>

text \<open>
  Claim C1. Two deliveries that carry the same message identifier are run through
  ingestion in sequence, with whatever the outside answers in each run. The two runs
  together post at most one approval prompt, and the first run throws nothing. When the
  first run gets past its two guards it ends with the message marked processed, and the
  second run then returns at once: no call is made (no analysis, no registration, no
  prompt) and the store stays as the first run left it. The second run also does nothing
  whenever it is given the very same event again.
\<close>

theorem ingestion_idempotent:
  assumes same: "ev_ts event2 = ev_ts event1"
  shows
  "length (prompts_posted (calls (processFeedbackMessage w1 event1 s))) +
   length (prompts_posted (calls (processFeedbackMessage w2 event2
              (store_after (processFeedbackMessage w1 event1 s))))) \<le> 1 \<and>
   thrown (processFeedbackMessage w1 event1 s) = None \<and>
   (\<not> isProcessed s (ev_ts event1) \<and> trim (message_text event1) \<noteq> [] \<longrightarrow>
      isProcessed (store_after (processFeedbackMessage w1 event1 s)) (ev_ts event1) \<and>
      processFeedbackMessage w2 event2 (store_after (processFeedbackMessage w1 event1 s))
        = (None, [], store_after (processFeedbackMessage w1 event1 s))) \<and>
   (event2 = event1 \<longrightarrow>
      processFeedbackMessage w2 event2 (store_after (processFeedbackMessage w1 event1 s))
        = (None, [], store_after (processFeedbackMessage w1 event1 s)))"
proof (cases "isProcessed s (ev_ts event1) \<or> trim (message_text event1) = []")
  case True
  then have first: "processFeedbackMessage w1 event1 s = (None, [], s)"
    by (rule process_skip)
  have "event2 = event1 \<Longrightarrow> processFeedbackMessage w2 event2 s = (None, [], s)"
    using True by (simp add: process_skip)
  then show ?thesis
    using True first run_summary [of w2 event2 s] by auto
next
  case False
  then have marked: "isProcessed (store_after (processFeedbackMessage w1 event1 s)) (ev_ts event2)"
    using run_summary [of w1 event1 s] same by simp
  have "processFeedbackMessage w2 event2 (store_after (processFeedbackMessage w1 event1 s))
      = (None, [], store_after (processFeedbackMessage w1 event1 s))"
    using marked by (simp add: process_skip)
  then show ?thesis
    using run_summary [of w1 event1 s] False by auto
qed

text \<open>
  Claim C1, witness: the sample message on a fresh handler, delivered again while the
  model API is down.
\<close>

theorem ingestion_idempotent_witness:
  "ev_ts sample_event = ev_ts sample_event \<and>
   \<not> isProcessed (ApprovalHandler Missing) (ev_ts sample_event) \<and>
   trim (message_text sample_event) \<noteq> [] \<and>
   length (prompts_posted (calls (processFeedbackMessage sample_world sample_event (ApprovalHandler Missing)))) = 1 \<and>
   processFeedbackMessage failing_model_world sample_event
       (store_after (processFeedbackMessage sample_world sample_event (ApprovalHandler Missing)))
     = (None, [], store_after (processFeedbackMessage sample_world sample_event (ApprovalHandler Missing))) \<and>
   isProcessed (store_after (processFeedbackMessage sample_world sample_event (ApprovalHandler Missing)))
     (ev_ts sample_event)"
proof -
  have e: "\<not> isProcessed (ApprovalHandler Missing) (ev_ts sample_event)"
    "trim (message_text sample_event) \<noteq> []"
    "length (prompts_posted (calls (processFeedbackMessage sample_world sample_event (ApprovalHandler Missing)))) = 1"
    by code_simp+
  show ?thesis
    using e ingestion_idempotent [OF refl, where ?w1.0 = sample_world and ?event1.0 = sample_event
        and s = "ApprovalHandler Missing" and ?w2.0 = failing_model_world]
    by simp
qed









section \<open>Claims about the resolution path\<close>

text \<open>
  Claim C3. When the key of a click on approve is in the store and \<open>createTask\<close>
  throws, the candidate is still in the store afterwards, in state approved and stamped
  with the time of the click; no key has left the map; one task creation was tried; and
  when a response URL was supplied, the failure notice is the one thing posted to it.
\<close>

theorem approval_survives_failed_task_creation:
  assumes "getPendingApproval s k = Some c" and "\<And>td. notion_create w td = None"
  shows "getPendingApproval (snd (handleApproval w k url s)) k
           = Some (c\<lparr>status := Approved, approvedAt := Some (now (w_io w))\<rparr>) \<and>
         map fst (DAList.impl_of (pendingApprovals (snd (handleApproval w k url s))))
           = map fst (DAList.impl_of (pendingApprovals s)) \<and>
         length (task_calls (fst (handleApproval w k url s))) = 1 \<and>
         (truthy url \<longrightarrow>
            notices (fst (handleApproval w k url s)) = [(in_template url, Task_failed)])"
  using assms keys_update_present [of "pendingApprovals s" k c]
  by (simp add: handleApproval_found Let_def failure_notice_def getPendingApproval_def)

text \<open>Claim C3, witness: the pending sample candidate and a task sink that throws.\<close>

theorem approval_survives_failed_task_creation_witness:
  "map_option status (getPendingApproval sample_store ''msg_111_222'') = Some Pending \<and>
   map_option status
     (getPendingApproval
        (snd (handleApproval failing_sink_world ''msg_111_222'' (Some ''https://hooks.example/r'')
                sample_store)) ''msg_111_222'') = Some Approved \<and>
   notices (fst (handleApproval failing_sink_world ''msg_111_222'' (Some ''https://hooks.example/r'')
                   sample_store)) = [(''https://hooks.example/r'', Task_failed)]"
proof -
  have p: "map_option status (getPendingApproval sample_store ''msg_111_222'') = Some Pending"
    by code_simp
  then obtain c where c: "getPendingApproval sample_store ''msg_111_222'' = Some c"
    by (cases "getPendingApproval sample_store ''msg_111_222''") simp_all
  have f: "\<And>td. notion_create failing_sink_world td = None"
    by (simp add: failing_sink_world_def)
  have t: "truthy (Some ''https://hooks.example/r'')"
    by (simp add: truthy_def)
  show ?thesis
    using p t approval_survives_failed_task_creation [OF c f, of "Some ''https://hooks.example/r''"]
    by (simp add: in_template_def)
qed

text \<open>
  Claim C2, as stated, fails: neither handler looks at the state of the candidate it
  finds. The sample candidate, once rejected, is still in the store; a click on approve
  then changes its stored record and calls \<open>createTask\<close> once (with a failing sink the
  record stays, in state approved).
\<close>

theorem reclick_on_rejected_creates_task:
  "map_option status (getPendingApproval rejected_store ''msg_111_222'') = Some Rejected \<and>
   getPendingApproval (snd (handleApproval sample_world ''msg_111_222'' None rejected_store))
     ''msg_111_222'' \<noteq> getPendingApproval rejected_store ''msg_111_222'' \<and>
   length (task_calls (fst (handleApproval sample_world ''msg_111_222'' None rejected_store))) = 1 \<and>
   map_option status
     (getPendingApproval (snd (handleApproval failing_sink_world ''msg_111_222'' None rejected_store))
        ''msg_111_222'') = Some Approved"
  by code_simp

text \<open>
  Claim C2, amended. For a candidate in the store: once an approve click has created its
  task, the candidate is gone from the store, and a further approve or reject click on
  its key makes no call and leaves the store as it is. As long as the candidate is in
  the store, whatever its state, a reject click never triggers task creation and leaves
  it rejected, while an approve click triggers one task creation and, when that fails,
  leaves it approved.
\<close>

theorem reclick_after_resolution:
  assumes "getPendingApproval s k = Some c"
  shows "((\<forall>td. notion_create w td \<noteq> None) \<longrightarrow>
            getPendingApproval (snd (handleApproval w k url s)) k = None \<and>
            handleApproval w2 k url2 (snd (handleApproval w k url s))
              = ([], snd (handleApproval w k url s)) \<and>
            handleRejection w2 k url2 (snd (handleApproval w k url s))
              = ([], snd (handleApproval w k url s))) \<and>
         task_calls (fst (handleRejection w k url s)) = [] \<and>
         map_option status (getPendingApproval (snd (handleRejection w k url s)) k) = Some Rejected \<and>
         length (task_calls (fst (handleApproval w k url s))) = 1 \<and>
         ((\<forall>td. notion_create w td = None) \<longrightarrow>
            map_option status (getPendingApproval (snd (handleApproval w k url s)) k) = Some Approved)"
proof (intro conjI impI)
  assume ok: "\<forall>td. notion_create w td \<noteq> None"
  show gone: "getPendingApproval (snd (handleApproval w k url s)) k = None"
    using assms ok
    by (auto simp: handleApproval_found Let_def getPendingApproval_def removePendingApproval_def
        split: option.splits)
  show "handleApproval w2 k url2 (snd (handleApproval w k url s))
              = ([], snd (handleApproval w k url s))"
    using gone by (simp add: handle_not_found)
  show "handleRejection w2 k url2 (snd (handleApproval w k url s))
              = ([], snd (handleApproval w k url s))"
    using gone by (simp add: handle_not_found)
next
  show "task_calls (fst (handleRejection w k url s)) = []"
    using assms by (simp add: handleRejection_found)
  show "map_option status (getPendingApproval (snd (handleRejection w k url s)) k) = Some Rejected"
    using assms by (simp add: handleRejection_found getPendingApproval_def)
  show "length (task_calls (fst (handleApproval w k url s))) = 1"
    using assms by (simp add: handleApproval_found Let_def failure_notice_def split: option.splits)
next
  assume "\<forall>td. notion_create w td = None"
  then show "map_option status (getPendingApproval (snd (handleApproval w k url s)) k) = Some Approved"
    using assms by (simp add: handleApproval_found Let_def getPendingApproval_def)
qed

text \<open>Claim C2, witness of the amended statement: two clicks on the sample candidate.\<close>

theorem reclick_after_resolution_witness:
  "getPendingApproval sample_store ''msg_111_222'' \<noteq> None \<and>
   handleApproval sample_world ''msg_111_222'' None
       (snd (handleApproval sample_world ''msg_111_222'' None sample_store))
     = ([], snd (handleApproval sample_world ''msg_111_222'' None sample_store)) \<and>
   handleRejection sample_world ''msg_111_222'' None
       (snd (handleApproval sample_world ''msg_111_222'' None sample_store))
     = ([], snd (handleApproval sample_world ''msg_111_222'' None sample_store)) \<and>
   map_option status
     (getPendingApproval (snd (handleApproval failing_sink_world ''msg_111_222'' None sample_store))
        ''msg_111_222'') = Some Approved"
proof -
  have p: "getPendingApproval sample_store ''msg_111_222'' \<noteq> None"
    by code_simp
  then obtain c where c: "getPendingApproval sample_store ''msg_111_222'' = Some c"
    by blast
  have ok: "\<forall>td. notion_create sample_world td \<noteq> None"
    by (simp add: sample_world_def)
  have f: "\<forall>td. notion_create failing_sink_world td = None"
    by (simp add: failing_sink_world_def)
  show ?thesis
    using p ok f
      reclick_after_resolution [OF c, of sample_world None sample_world None]
      reclick_after_resolution [OF c, of failing_sink_world None sample_world None]
    by simp
qed

end
